theory Spec2Isabelle
  imports Complex_Main
begin

section \<open>The like toggle of static/js/likes.js\<close>

text \<open>
  The script binds one handler, \<open>processLike\<close>, to the submit event of the form
  \<open>#like-form\<close>. The handler and its two helpers \<open>likeCafe\<close> and \<open>unlikeCafe\<close> are
  asynchronous functions whose only effects are on the page (the event's default action,
  the text of the button \<open>#like-btn\<close>, the console) and on the network (\<open>fetch\<close>).
  The embedding threads the page through the functions, records every effect in order
  in an event log, and takes the network as a parameter that settles each request.
\<close>

subsection \<open>JavaScript values\<close>

text \<open>
  A Number is a double: finite (a rational; both zeros are the value 0), an infinity or
  NaN. Only its truthiness is ever observed by the script.
\<close>

datatype jsnum = Finite rat | PosInfinity | NegInfinity | NaN

text \<open>
  What \<open>resp.json()\<close> can resolve to, and \<open>undefined\<close>, which a property read
  gives for a property that is not there. A string is a list of code units, each in the
  range of \<^typ>\<open>char\<close>. An object lists its own properties, each key once.
\<close>

datatype jsval =
    JUndefined
  | JNull
  | JBool bool
  | JNum jsnum
  | JStr string
  | JArr "jsval list"
  | JObj "(string \<times> jsval) list"

datatype js_error = TypeError | SyntaxError | AbortError

text \<open>The conversion that \<open>if (liked)\<close> applies to its condition.\<close>

fun to_boolean :: "jsval \<Rightarrow> bool" where
  "to_boolean JUndefined = False"
| "to_boolean JNull = False"
| "to_boolean (JBool b) = b"
| "to_boolean (JNum n) = (n \<noteq> NaN \<and> n \<noteq> Finite 0)"
| "to_boolean (JStr s) = (s \<noteq> [])"
| "to_boolean (JArr xs) = True"
| "to_boolean (JObj kvs) = True"

text \<open>
  The property read \<open>likedData.likes\<close>: a TypeError on \<open>null\<close> and
  \<open>undefined\<close>, the property's value on an object that has it, \<open>undefined\<close>
  on an object without it and on every other value (no boolean, number, string or array
  has a property of that name).
\<close>

fun get_likes :: "jsval \<Rightarrow> js_error + jsval" where
  "get_likes JUndefined = Inl TypeError"
| "get_likes JNull = Inl TypeError"
| "get_likes (JObj kvs) =
     Inr (case map_of kvs ''likes'' of None \<Rightarrow> JUndefined | Some v \<Rightarrow> v)"
| "get_likes v = Inr JUndefined"

text \<open>
  The template literal's conversion of \<open>cafeId\<close>, which is what jQuery's
  \<open>attr\<close> returned: the attribute's string, or \<open>undefined\<close> when the form has
  no such attribute.
\<close>

fun to_string :: "string option \<Rightarrow> string" where
  "to_string None = ''undefined''"
| "to_string (Some s) = s"

subsection \<open>JSON.stringify on the request body\<close>

abbreviation dquote :: char where "dquote \<equiv> CHR 0x22"
abbreviation backslash :: char where "backslash \<equiv> CHR 0x5C"

definition hex_digit :: "nat \<Rightarrow> char" where
  "hex_digit n = (if n < 10 then char_of (48 + n) else char_of (87 + n))"

text \<open>
  One code unit inside a quoted JSON string: the two-character escapes first, then the
  \<open>\u00XX\<close> form (lower-case hexadecimal) for the remaining control characters,
  everything else as it is.
\<close>

definition quote_json_char :: "char \<Rightarrow> string" where
  "quote_json_char c =
     (if c = CHR 0x08 then [backslash, CHR ''b'']
      else if c = CHR 0x09 then [backslash, CHR ''t'']
      else if c = CHR 0x0A then [backslash, CHR ''n'']
      else if c = CHR 0x0C then [backslash, CHR ''f'']
      else if c = CHR 0x0D then [backslash, CHR ''r'']
      else if c = dquote then [backslash, dquote]
      else if c = backslash then [backslash, backslash]
      else if (of_char c :: nat) < 32 then
        [backslash, CHR ''u'', CHR ''0'', CHR ''0'',
         hex_digit ((of_char c :: nat) div 16), hex_digit ((of_char c :: nat) mod 16)]
      else [c])"

definition quote_json_string :: "string \<Rightarrow> string" where
  "quote_json_string s = dquote # concat (map quote_json_char s) @ [dquote]"

text \<open>
  \<open>JSON.stringify({ cafe_id: cafeId })\<close>. A property whose value is
  \<open>undefined\<close> is left out of the text, so an undefined \<open>cafeId\<close> gives the
  empty object.
\<close>

fun stringify_cafe_id :: "string option \<Rightarrow> string" where
  "stringify_cafe_id None = ''{}''"
| "stringify_cafe_id (Some s) =
     ''{'' @ quote_json_string ''cafe_id'' @ '':'' @ quote_json_string s @ ''}''"

subsection \<open>Reading a JSON text back\<close>

text \<open>
  A reader for the JSON texts that are objects with string members and no insignificant
  white space, written from the JSON grammar and independent of the writer above. It
  says what it means for a request body to be valid JSON holding a given member.
\<close>

definition hex_value :: "char \<Rightarrow> nat option" where
  "hex_value c =
     (let n = (of_char c :: nat) in
      if 48 \<le> n \<and> n \<le> 57 then Some (n - 48)
      else if 97 \<le> n \<and> n \<le> 102 then Some (n - 87)
      else if 65 \<le> n \<and> n \<le> 70 then Some (n - 55)
      else None)"

definition hex4 :: "char \<Rightarrow> char \<Rightarrow> char \<Rightarrow> char \<Rightarrow> nat option" where
  "hex4 h1 h2 h3 h4 =
     (case hex_value h1 of None \<Rightarrow> None | Some a \<Rightarrow>
     (case hex_value h2 of None \<Rightarrow> None | Some b \<Rightarrow>
     (case hex_value h3 of None \<Rightarrow> None | Some c \<Rightarrow>
     (case hex_value h4 of None \<Rightarrow> None | Some d \<Rightarrow>
        Some (((a * 16 + b) * 16 + c) * 16 + d)))))"

definition unescape_char :: "char \<Rightarrow> char option" where
  "unescape_char e =
     (if e = dquote then Some dquote
      else if e = backslash then Some backslash
      else if e = CHR ''/'' then Some (CHR ''/'')
      else if e = CHR ''b'' then Some (CHR 0x08)
      else if e = CHR ''f'' then Some (CHR 0x0C)
      else if e = CHR ''n'' then Some (CHR 0x0A)
      else if e = CHR ''r'' then Some (CHR 0x0D)
      else if e = CHR ''t'' then Some (CHR 0x09)
      else None)"

definition cons_char :: "char \<Rightarrow> (string \<times> string) option \<Rightarrow> (string \<times> string) option" where
  "cons_char c r = (case r of None \<Rightarrow> None | Some (s, rest) \<Rightarrow> Some (c # s, rest))"

text \<open>
  The characters of a string after its opening quote, up to the closing quote: the
  decoded string and the rest of the input. A \<open>\uXXXX\<close> escape beyond the range of
  \<^typ>\<open>char\<close> is not read.
\<close>

fun read_string_chars :: "string \<Rightarrow> (string \<times> string) option" where
  "read_string_chars [] = None"
| "read_string_chars (c # cs) =
     (if c = dquote then Some ([], cs)
      else if c = backslash then
        (case cs of
           [] \<Rightarrow> None
         | e # cs1 \<Rightarrow>
             if e = CHR ''u'' then
               (case cs1 of
                  h1 # h2 # h3 # h4 # cs2 \<Rightarrow>
                    (case hex4 h1 h2 h3 h4 of
                       None \<Rightarrow> None
                     | Some n \<Rightarrow>
                         if n < 256 then cons_char (char_of n) (read_string_chars cs2)
                         else None)
                | _ \<Rightarrow> None)
             else
               (case unescape_char e of
                  None \<Rightarrow> None
                | Some x \<Rightarrow> cons_char x (read_string_chars cs1)))
      else if (of_char c :: nat) < 32 then None
      else cons_char c (read_string_chars cs))"

text \<open>
  The members of an object after its opening brace, up to the closing brace, which must
  end the text: \<open>"key":"value"\<close>, separated by commas. The first argument bounds
  the number of members read; the length of the text is always enough.
\<close>

fun read_members :: "nat \<Rightarrow> string \<Rightarrow> (string \<times> string) list option" where
  "read_members 0 cs = None"
| "read_members (Suc n) cs =
     (case cs of
        [] \<Rightarrow> None
      | q # cs1 \<Rightarrow>
          if q \<noteq> dquote then None
          else
            (case read_string_chars cs1 of
               None \<Rightarrow> None
             | Some (k, cs2) \<Rightarrow>
                 (case cs2 of
                    colon # q2 # cs3 \<Rightarrow>
                      if colon \<noteq> CHR '':'' \<or> q2 \<noteq> dquote then None
                      else
                        (case read_string_chars cs3 of
                           None \<Rightarrow> None
                         | Some (v, cs4) \<Rightarrow>
                             (case cs4 of
                                [] \<Rightarrow> None
                              | x # cs5 \<Rightarrow>
                                  if x = CHR ''}'' then (if cs5 = [] then Some [(k, v)] else None)
                                  else if x = CHR '','' then
                                    map_option ((#) (k, v)) (read_members n cs5)
                                  else None))
                  | _ \<Rightarrow> None)))"

definition read_object :: "string \<Rightarrow> (string \<times> string) list option" where
  "read_object cs =
     (case cs of
        [] \<Rightarrow> None
      | b # cs1 \<Rightarrow>
          if b \<noteq> CHR ''{'' then None
          else if cs1 = ''}'' then Some []
          else read_members (length cs1) cs1)"

subsection \<open>The network and the page\<close>

text \<open>
  A promise as the handler meets it at an \<open>await\<close>: fulfilled with a value, rejected
  with an error, or never settled.
\<close>

datatype 'a promise = Fulfilled 'a | Rejected js_error | Pending

datatype http_method = GET | POST

record request =
  url :: string
  req_method :: http_method
  body :: "string option"
  headers :: "(string \<times> string) list"

text \<open>
  A response as the script uses it: its HTTP status, which \<open>fetch\<close> does not turn
  into a rejection, and what \<open>resp.json()\<close> settles to (a rejection when the body is
  not JSON).
\<close>

record response =
  status :: nat
  json :: "jsval promise"

type_synonym network = "request \<Rightarrow> response promise"

datatype event =
    PreventDefault
  | ReadAttr string string
  | SetText string string
  | Fetch request
  | AwaitResponse
  | AwaitJson
  | ConsoleLog jsval

text \<open>
  The page: the \<open>cafe-id\<close> attribute of \<open>#like-form\<close> (absent when
  \<open>None\<close>), the text of \<open>#like-btn\<close>, whether the submit event's default
  action has been prevented, and the log of effects so far, oldest first.
\<close>

record page =
  cafe_id_attr :: "string option"
  btn_text :: string
  default_prevented :: bool
  events :: "event list"

text \<open>
  How the promise of an asynchronous function ends: it returns, it throws (an unhandled
  rejection), or it stays suspended at an \<open>await\<close> for ever.
\<close>

datatype outcome = Returned | Threw js_error | Suspended

definition emit :: "event \<Rightarrow> page \<Rightarrow> page" where
  "emit ev p = p\<lparr>events := events p @ [ev]\<rparr>"

text \<open>\<open>$("#like-btn").text(t)\<close>\<close>

definition set_btn_text :: "string \<Rightarrow> page \<Rightarrow> page" where
  "set_btn_text t p = emit (SetText ''#like-btn'' t) (p\<lparr>btn_text := t\<rparr>)"

text \<open>
  \<open>await\<close>: the function suspends (the event \<open>ev\<close>), and goes on with the value
  only when the promise is fulfilled.
\<close>

definition await ::
  "event \<Rightarrow> 'a promise \<Rightarrow> ('a \<Rightarrow> page \<Rightarrow> outcome \<times> page) \<Rightarrow> page \<Rightarrow> outcome \<times> page" where
  "await ev pr k p =
     (let p' = emit ev p in
      case pr of
        Pending \<Rightarrow> (Suspended, p')
      | Rejected e \<Rightarrow> (Threw e, p')
      | Fulfilled v \<Rightarrow> k v p')"

subsection \<open>The three functions\<close>

definition likes_request :: "string option \<Rightarrow> request" where
  "likes_request cafeId =
     \<lparr>url = ''/api/likes?cafe_id='' @ to_string cafeId, req_method = GET,
      body = None, headers = []\<rparr>"

definition like_request :: "string option \<Rightarrow> request" where
  "like_request cafeId =
     \<lparr>url = ''/api/like'', req_method = POST,
      body = Some (stringify_cafe_id cafeId),
      headers = [(''Content-Type'', ''application/json'')]\<rparr>"

definition unlike_request :: "string option \<Rightarrow> request" where
  "unlike_request cafeId =
     \<lparr>url = ''/api/unlike'', req_method = POST,
      body = Some (stringify_cafe_id cafeId),
      headers = [(''Content-Type'', ''application/json'')]\<rparr>"

definition likeCafe :: "network \<Rightarrow> string option \<Rightarrow> page \<Rightarrow> outcome \<times> page" where
  "likeCafe net cafeId p =
     (let p1 = set_btn_text ''Liked'' p;
          req = like_request cafeId;
          p2 = emit (Fetch req) p1
      in await AwaitResponse (net req) (\<lambda>resp.
         await AwaitJson (json resp) (\<lambda>data p3.
           (Returned, emit (ConsoleLog data) p3))) p2)"

definition unlikeCafe :: "network \<Rightarrow> string option \<Rightarrow> page \<Rightarrow> outcome \<times> page" where
  "unlikeCafe net cafeId p =
     (let p1 = set_btn_text ''Like'' p;
          req = unlike_request cafeId;
          p2 = emit (Fetch req) p1
      in await AwaitResponse (net req) (\<lambda>resp.
         await AwaitJson (json resp) (\<lambda>data p3.
           (Returned, emit (ConsoleLog data) p3))) p2)"

text \<open>
  \<open>processLike\<close>. The \<open>debugger\<close> statement has no effect on the page or the
  network. \<open>await unlikeCafe(cafeId)\<close> makes the handler end as the callee ends.
\<close>

definition processLike :: "network \<Rightarrow> page \<Rightarrow> outcome \<times> page" where
  "processLike net p =
     (let p1 = emit PreventDefault (p\<lparr>default_prevented := True\<rparr>);
          cafeId = cafe_id_attr p1;
          p2 = emit (ReadAttr ''#like-form'' ''cafe-id'') p1;
          req = likes_request cafeId;
          p3 = emit (Fetch req) p2
      in await AwaitResponse (net req) (\<lambda>resp.
         await AwaitJson (json resp) (\<lambda>likedData p4.
           case get_likes likedData of
             Inl e \<Rightarrow> (Threw e, p4)
           | Inr liked \<Rightarrow>
               if to_boolean liked then unlikeCafe net cafeId p4
               else likeCafe net cafeId p4)) p3)"

subsection \<open>Reading a run\<close>

text \<open>The effects of a run that took the page \<open>p\<close> to \<open>p'\<close>.\<close>

definition emitted :: "page \<Rightarrow> page \<Rightarrow> event list" where
  "emitted p p' = drop (length (events p)) (events p')"

fun requests :: "event list \<Rightarrow> request list" where
  "requests [] = []"
| "requests (Fetch r # evs) = r # requests evs"
| "requests (ev # evs) = requests evs"

definition is_post :: "request \<Rightarrow> bool" where
  "is_post r = (req_method r = POST)"

definition mutations :: "event list \<Rightarrow> request list" where
  "mutations evs = filter is_post (requests evs)"

text \<open>The members of a request's body, when the body is such a JSON text.\<close>

definition body_members :: "request \<Rightarrow> (string \<times> string) list option" where
  "body_members r = (case body r of None \<Rightarrow> None | Some b \<Rightarrow> read_object b)"

text \<open>
  The page at the two places where the handler waits for the state query: at the
  \<open>await\<close> of the response (\<open>awaiting_query\<close>) and, the response there, at
  the \<open>await\<close> of its JSON body (\<open>after_query\<close>).
\<close>

definition awaiting_query :: "page \<Rightarrow> page" where
  "awaiting_query p =
     p\<lparr>default_prevented := True,
       events := events p @
         [PreventDefault, ReadAttr ''#like-form'' ''cafe-id'',
          Fetch (likes_request (cafe_id_attr p)), AwaitResponse]\<rparr>"

definition after_query :: "page \<Rightarrow> page" where
  "after_query p =
     p\<lparr>default_prevented := True,
       events := events p @
         [PreventDefault, ReadAttr ''#like-form'' ''cafe-id'',
          Fetch (likes_request (cafe_id_attr p)), AwaitResponse, AwaitJson]\<rparr>"

subsection \<open>Concrete pages and networks\<close>

text \<open>
  A page with a given attribute and button text, a response with a JSON body, and a
  network that answers the state query with one promise and every mutation with another.
\<close>

definition example_page :: "string option \<Rightarrow> string \<Rightarrow> page" where
  "example_page a t = \<lparr>cafe_id_attr = a, btn_text = t, default_prevented = False, events = []\<rparr>"

definition json_response :: "nat \<Rightarrow> jsval \<Rightarrow> response" where
  "json_response n v = \<lparr>status = n, json = Fulfilled v\<rparr>"

definition example_net :: "response promise \<Rightarrow> response promise \<Rightarrow> network" where
  "example_net q m r = (if req_method r = GET then q else m)"

section \<open>Properties\<close>

subsection \<open>Auxiliary facts\<close>

text \<open>
  The reader undoes the writer: every character the writer emits is read back as the
  character written, so the body built for a defined \<open>cafeId\<close> reads back as the
  object with that one member.
\<close>

lemma hex_value_hex_digit: "n < 16 \<Longrightarrow> hex_value (hex_digit n) = Some n"
  by (auto simp: hex_value_def hex_digit_def Let_def)

lemma hex4_control:
  assumes "n < 32"
  shows "hex4 (CHR ''0'') (CHR ''0'') (hex_digit (n div 16)) (hex_digit (n mod 16)) = Some n"
proof -
  have a: "hex_value (CHR ''0'') = Some 0" by (simp add: hex_value_def)
  have "n div 16 < 16" using assms by simp
  then have b: "hex_value (hex_digit (n div 16)) = Some (n div 16)" by (rule hex_value_hex_digit)
  have c: "hex_value (hex_digit (n mod 16)) = Some (n mod 16)" by (rule hex_value_hex_digit) simp
  show ?thesis by (simp add: hex4_def a b c)
qed

lemma read_quote_char:
  "read_string_chars (quote_json_char c @ cs) = cons_char c (read_string_chars cs)"
proof -
  consider (esc) "c \<in> {CHR 0x08, CHR 0x09, CHR 0x0A, CHR 0x0C, CHR 0x0D, dquote, backslash}"
    | (ctl) "c \<notin> {CHR 0x08, CHR 0x09, CHR 0x0A, CHR 0x0C, CHR 0x0D, dquote, backslash}" "(of_char c :: nat) < 32"
    | (plain) "c \<notin> {CHR 0x08, CHR 0x09, CHR 0x0A, CHR 0x0C, CHR 0x0D, dquote, backslash}" "\<not> (of_char c :: nat) < 32"
    by blast
  then show ?thesis
  proof cases
    case esc
    then show ?thesis by (auto simp: quote_json_char_def unescape_char_def)
  next
    case ctl
    then show ?thesis
      by (simp add: quote_json_char_def hex4_control)
  next
    case plain
    then show ?thesis by (simp add: quote_json_char_def)
  qed
qed

lemma read_quoted:
  "read_string_chars (concat (map quote_json_char s) @ dquote # rest) = Some (s, rest)"
  by (induction s) (simp_all add: read_quote_char cons_char_def)

lemma read_members_one:
  assumes "\<And>rest. read_string_chars (kt @ rest) = Some (k, rest)"
    and "\<And>rest. read_string_chars (vt @ rest) = Some (v, rest)"
  shows "read_members (Suc n) (dquote # kt @ CHR '':'' # dquote # vt @ ''}'') = Some [(k, v)]"
  by (simp add: assms del: read_string_chars.simps)

lemma read_object_cafe_id:
  "read_object (stringify_cafe_id (Some s)) = Some [(''cafe_id'', s)]"
proof -
  define kt where "kt = ''cafe_id'' @ [dquote]"
  define vt where "vt = concat (map quote_json_char s) @ [dquote]"
  define members where "members = dquote # kt @ CHR '':'' # dquote # vt @ ''}''"
  have k: "read_string_chars (kt @ rest) = Some (''cafe_id'', rest)" for rest
    by (simp add: kt_def cons_char_def)
  have v: "read_string_chars (vt @ rest) = Some (s, rest)" for rest
    using read_quoted [of s rest] by (simp add: vt_def)
  have text_eq: "stringify_cafe_id (Some s) = CHR ''{'' # members"
    by (simp add: members_def kt_def vt_def quote_json_string_def quote_json_char_def)
  obtain n where len: "length members = Suc n"
    by (simp add: members_def)
  have ne: "members \<noteq> ''}''"
    by (simp add: members_def)
  have "read_members (Suc n) members = Some [(''cafe_id'', s)]"
    unfolding members_def using k v by (rule read_members_one)
  with len ne show ?thesis
    by (simp add: text_eq read_object_def del: stringify_cafe_id.simps)
qed

text \<open>
  The runs of the three functions: what the handler has done when the state query is
  answered, and the label, the requests and the log that each helper leaves.
\<close>

lemmas run_defs = processLike_def likeCafe_def unlikeCafe_def await_def emit_def
  set_btn_text_def emitted_def mutations_def is_post_def Let_def

lemmas example_defs = example_page_def json_response_def example_net_def

lemma request_method [simp]:
  "req_method (likes_request c) = GET" "req_method (like_request c) = POST"
  "req_method (unlike_request c) = POST"
  by (simp_all add: likes_request_def like_request_def unlike_request_def)

lemma get_likes_Inr_iff: "(\<exists>v. get_likes d = Inr v) \<longleftrightarrow> d \<noteq> JNull \<and> d \<noteq> JUndefined"
  by (cases d) simp_all

lemma body_members_mutation:
  "body_members (like_request (Some cid)) = Some [(''cafe_id'', cid)]"
  "body_members (unlike_request (Some cid)) = Some [(''cafe_id'', cid)]"
  "body_members (like_request None) = Some []"
  "body_members (unlike_request None) = Some []"
  by (simp_all add: body_members_def like_request_def unlike_request_def read_object_cafe_id
      del: stringify_cafe_id.simps) (simp_all add: read_object_def)

lemma processLike_answered:
  assumes "net (likes_request (cafe_id_attr p)) = Fulfilled resp"
    and "json resp = Fulfilled likedData"
  shows "processLike net p =
     (case get_likes likedData of
        Inl e \<Rightarrow> (Threw e, after_query p)
      | Inr liked \<Rightarrow>
          if to_boolean liked then unlikeCafe net (cafe_id_attr p) (after_query p)
          else likeCafe net (cafe_id_attr p) (after_query p))"
  using assms by (simp add: processLike_def await_def emit_def Let_def after_query_def split: sum.split)

lemma likeCafe_label: "btn_text (snd (likeCafe net c p)) = ''Liked''"
  by (simp add: run_defs split: promise.split)

lemma unlikeCafe_label: "btn_text (snd (unlikeCafe net c p)) = ''Like''"
  by (simp add: run_defs split: promise.split)

lemma likeCafe_requests: "requests (emitted p (snd (likeCafe net c p))) = [like_request c]"
  by (simp add: run_defs split: promise.split)

lemma unlikeCafe_requests: "requests (emitted p (snd (unlikeCafe net c p))) = [unlike_request c]"
  by (simp add: run_defs split: promise.split)

lemma likeCafe_after_query:
  "mutations (emitted p (snd (likeCafe net c (after_query p)))) = [like_request c]"
  by (simp add: run_defs after_query_def split: promise.split)

lemma unlikeCafe_after_query:
  "mutations (emitted p (snd (unlikeCafe net c (after_query p)))) = [unlike_request c]"
  by (simp add: run_defs after_query_def split: promise.split)

lemma processLike_unfold:
  "processLike net p =
     (case net (likes_request (cafe_id_attr p)) of
        Pending \<Rightarrow> (Suspended, awaiting_query p)
      | Rejected e \<Rightarrow> (Threw e, awaiting_query p)
      | Fulfilled resp \<Rightarrow>
          (case json resp of
             Pending \<Rightarrow> (Suspended, after_query p)
           | Rejected e \<Rightarrow> (Threw e, after_query p)
           | Fulfilled likedData \<Rightarrow>
               (case get_likes likedData of
                  Inl e \<Rightarrow> (Threw e, after_query p)
                | Inr liked \<Rightarrow>
                    if to_boolean liked then unlikeCafe net (cafe_id_attr p) (after_query p)
                    else likeCafe net (cafe_id_attr p) (after_query p))))"
  by (simp add: processLike_def await_def emit_def Let_def after_query_def awaiting_query_def
      split: promise.split sum.split)

lemma likeCafe_events:
  "events (snd (likeCafe net c q)) = events q @ emitted q (snd (likeCafe net c q))"
  by (simp add: run_defs split: promise.split)

lemma unlikeCafe_events:
  "events (snd (unlikeCafe net c q)) = events q @ emitted q (snd (unlikeCafe net c q))"
  by (simp add: run_defs split: promise.split)

lemma emitted_after_query:
  assumes "events q = events (after_query p) @ xs"
  shows "emitted p q =
     PreventDefault # ReadAttr ''#like-form'' ''cafe-id'' #
     Fetch (likes_request (cafe_id_attr p)) # AwaitResponse # AwaitJson # xs"
  using assms by (simp add: emitted_def after_query_def)

lemma processLike_prefix:
  "take 3 (emitted p (snd (processLike net p))) =
     [PreventDefault, ReadAttr ''#like-form'' ''cafe-id'', Fetch (likes_request (cafe_id_attr p))]"
proof -
  have a: "take 3 (emitted p (awaiting_query p)) =
      [PreventDefault, ReadAttr ''#like-form'' ''cafe-id'', Fetch (likes_request (cafe_id_attr p))]"
    by (simp add: emitted_def awaiting_query_def)
  have b: "take 3 (emitted p q) =
      [PreventDefault, ReadAttr ''#like-form'' ''cafe-id'', Fetch (likes_request (cafe_id_attr p))]"
    if "events q = events (after_query p) @ xs" for q xs
    by (simp add: emitted_after_query [OF that])
  note c = b [of "after_query p" "[]", simplified]
    b [OF likeCafe_events] b [OF unlikeCafe_events]
  show ?thesis
    by (simp add: processLike_unfold a c split: promise.split sum.split)
qed

lemma processLike_mutations_subset:
  "set (mutations (emitted p (snd (processLike net p))))
     \<subseteq> {like_request (cafe_id_attr p), unlike_request (cafe_id_attr p)}"
proof -
  have a: "mutations (emitted p (awaiting_query p)) = []"
    by (simp add: emitted_def awaiting_query_def mutations_def is_post_def)
  have b: "mutations (emitted p (after_query p)) = []"
    by (simp add: emitted_def after_query_def mutations_def is_post_def)
  show ?thesis
    by (simp add: processLike_unfold a b likeCafe_after_query unlikeCafe_after_query
        split: promise.split sum.split)
qed

lemma likeCafe_default_prevented:
  "default_prevented (snd (likeCafe net c q)) = default_prevented q"
  by (simp add: run_defs split: promise.split)

lemma unlikeCafe_default_prevented:
  "default_prevented (snd (unlikeCafe net c q)) = default_prevented q"
  by (simp add: run_defs split: promise.split)

lemma mutations_before_answer:
  "mutations (emitted p (awaiting_query p)) = []" "mutations (emitted p (after_query p)) = []"
  by (simp_all add: emitted_def awaiting_query_def after_query_def mutations_def is_post_def)

lemma btn_text_after_query: "btn_text (after_query p) = btn_text p"
  by (simp add: after_query_def)

lemma get_likes_missing: "map_of kvs ''likes'' = None \<Longrightarrow> get_likes (JObj kvs) = Inr JUndefined"
  by simp

subsection \<open>The claims\<close>

text \<open>
  Claim C1 says that whenever \<open>likes\<close> is \<open>true\<close> the one POST to
  \<open>/api/unlike\<close> carries the resource identifier read from the form. On a form
  without the \<open>cafe-id\<close> attribute the value read is \<open>undefined\<close>: the
  handler still issues exactly one POST, to \<open>/api/unlike\<close>, and sets the button's
  text to \<open>Like\<close>, but the body of that POST is \<open>{}\<close> and carries no
  identifier.
\<close>

theorem liked_without_attribute_counterexample:
  "cafe_id_attr (example_page None ''Unlike'') = None
   \<and> get_likes (JObj [(''likes'', JBool True)]) = Inr (JBool True)
   \<and> map url (mutations (emitted (example_page None ''Unlike'')
        (snd (processLike
          (example_net (Fulfilled (json_response 200 (JObj [(''likes'', JBool True)])))
             (Rejected TypeError))
          (example_page None ''Unlike''))))) = [''/api/unlike'']
   \<and> map body (mutations (emitted (example_page None ''Unlike'')
        (snd (processLike
          (example_net (Fulfilled (json_response 200 (JObj [(''likes'', JBool True)])))
             (Rejected TypeError))
          (example_page None ''Unlike''))))) = [Some ''{}'']
   \<and> map body_members (mutations (emitted (example_page None ''Unlike'')
        (snd (processLike
          (example_net (Fulfilled (json_response 200 (JObj [(''likes'', JBool True)])))
             (Rejected TypeError))
          (example_page None ''Unlike''))))) = [Some []]
   \<and> btn_text (snd (processLike
          (example_net (Fulfilled (json_response 200 (JObj [(''likes'', JBool True)])))
             (Rejected TypeError))
          (example_page None ''Unlike''))) = ''Like''"
  by (simp add: run_defs example_defs body_members_mutation) (simp add: unlike_request_def)

text \<open>
  Claim C1, amended. Whenever the state query answers with a body whose \<open>likes\<close>
  is \<open>true\<close>, the handler issues exactly one mutation request, the POST to
  \<open>/api/unlike\<close> built from the value read from the form, and the button's text ends
  as \<open>Like\<close>. When the form has the \<open>cafe-id\<close> attribute, the body of that
  POST reads back as the object with the single member \<open>cafe_id\<close> holding the
  attribute's value; when the form lacks the attribute, the body is \<open>{}\<close>.
\<close>

theorem processLike_liked:
  assumes "net (likes_request (cafe_id_attr p)) = Fulfilled resp"
    and "json resp = Fulfilled likedData"
    and "get_likes likedData = Inr (JBool True)"
  shows "mutations (emitted p (snd (processLike net p))) = [unlike_request (cafe_id_attr p)]
       \<and> url (unlike_request (cafe_id_attr p)) = ''/api/unlike''
       \<and> (\<forall>cid. cafe_id_attr p = Some cid \<longrightarrow>
             body_members (unlike_request (cafe_id_attr p)) = Some [(''cafe_id'', cid)])
       \<and> (cafe_id_attr p = None \<longrightarrow>
             body (unlike_request (cafe_id_attr p)) = Some ''{}''
             \<and> body_members (unlike_request (cafe_id_attr p)) = Some [])
       \<and> btn_text (snd (processLike net p)) = ''Like''"
proof -
  have run: "processLike net p = unlikeCafe net (cafe_id_attr p) (after_query p)"
    using assms by (simp add: processLike_answered)
  have "url (unlike_request (cafe_id_attr p)) = ''/api/unlike''"
    by (simp add: unlike_request_def)
  moreover have "body (unlike_request None) = Some ''{}''"
    by (simp add: unlike_request_def)
  ultimately show ?thesis
    by (simp add: run unlikeCafe_after_query unlikeCafe_label body_members_mutation)
qed

theorem processLike_liked_witness:
  "example_net (Fulfilled (json_response 200 (JObj [(''likes'', JBool True)]))) Pending
      (likes_request (cafe_id_attr (example_page (Some ''7'') ''Liked'')))
     = Fulfilled (json_response 200 (JObj [(''likes'', JBool True)]))
   \<and> json (json_response 200 (JObj [(''likes'', JBool True)]))
     = Fulfilled (JObj [(''likes'', JBool True)])
   \<and> get_likes (JObj [(''likes'', JBool True)]) = Inr (JBool True)
   \<and> mutations (emitted (example_page (Some ''7'') ''Liked'')
        (snd (processLike
           (example_net (Fulfilled (json_response 200 (JObj [(''likes'', JBool True)]))) Pending)
           (example_page (Some ''7'') ''Liked''))))
     = [unlike_request (Some ''7'')]
   \<and> body_members (unlike_request (Some ''7'')) = Some [(''cafe_id'', ''7'')]
   \<and> btn_text (snd (processLike
           (example_net (Fulfilled (json_response 200 (JObj [(''likes'', JBool True)]))) Pending)
           (example_page (Some ''7'') ''Liked''))) = ''Like''
   \<and> cafe_id_attr (example_page None ''Liked'') = None
   \<and> mutations (emitted (example_page None ''Liked'')
        (snd (processLike
           (example_net (Fulfilled (json_response 200 (JObj [(''likes'', JBool True)]))) Pending)
           (example_page None ''Liked''))))
     = [unlike_request None]
   \<and> body (unlike_request None) = Some ''{}''
   \<and> btn_text (snd (processLike
           (example_net (Fulfilled (json_response 200 (JObj [(''likes'', JBool True)]))) Pending)
           (example_page None ''Liked''))) = ''Like''"
proof -
  let ?d = "JObj [(''likes'', JBool True)]"
  let ?net = "example_net (Fulfilled (json_response 200 ?d)) Pending"
  let ?p = "example_page (Some ''7'') ''Liked''"
  let ?q = "example_page None ''Liked''"
  have h1: "?net (likes_request (cafe_id_attr ?p)) = Fulfilled (json_response 200 ?d)"
    and k1: "?net (likes_request (cafe_id_attr ?q)) = Fulfilled (json_response 200 ?d)"
    by (simp_all add: example_defs)
  have h2: "json (json_response 200 ?d) = Fulfilled ?d"
    by (simp add: example_defs)
  have h3: "get_likes ?d = Inr (JBool True)"
    by simp
  have a: "cafe_id_attr ?p = Some ''7''" "cafe_id_attr ?q = None"
    by (simp_all add: example_defs)
  show ?thesis
    using h1 k1 h2 h3 processLike_liked [of ?net ?p "json_response 200 ?d" ?d]
      processLike_liked [of ?net ?q "json_response 200 ?d" ?d]
    by (simp add: a)
qed

text \<open>
  Claim C2. Whenever the state query answers with a body whose \<open>likes\<close> is
  \<open>false\<close>, the handler issues exactly one mutation request, the POST to
  \<open>/api/like\<close>, and the button's text ends as \<open>Liked\<close>.
\<close>

theorem processLike_not_liked:
  assumes "net (likes_request (cafe_id_attr p)) = Fulfilled resp"
    and "json resp = Fulfilled likedData"
    and "get_likes likedData = Inr (JBool False)"
  shows "mutations (emitted p (snd (processLike net p))) = [like_request (cafe_id_attr p)]
       \<and> url (like_request (cafe_id_attr p)) = ''/api/like''
       \<and> req_method (like_request (cafe_id_attr p)) = POST
       \<and> btn_text (snd (processLike net p)) = ''Liked''"
proof -
  have run: "processLike net p = likeCafe net (cafe_id_attr p) (after_query p)"
    using assms by (simp add: processLike_answered)
  have "url (like_request (cafe_id_attr p)) = ''/api/like''"
    by (simp add: like_request_def)
  then show ?thesis
    by (simp add: run likeCafe_after_query likeCafe_label)
qed

theorem processLike_not_liked_witness:
  "example_net (Fulfilled (json_response 200 (JObj [(''likes'', JBool False)])))
      (Fulfilled (json_response 201 (JObj [(''liked'', JNum (Finite 7))])))
      (likes_request (cafe_id_attr (example_page (Some ''7'') ''Like'')))
     = Fulfilled (json_response 200 (JObj [(''likes'', JBool False)]))
   \<and> json (json_response 200 (JObj [(''likes'', JBool False)]))
     = Fulfilled (JObj [(''likes'', JBool False)])
   \<and> get_likes (JObj [(''likes'', JBool False)]) = Inr (JBool False)
   \<and> mutations (emitted (example_page (Some ''7'') ''Like'')
        (snd (processLike
           (example_net (Fulfilled (json_response 200 (JObj [(''likes'', JBool False)])))
              (Fulfilled (json_response 201 (JObj [(''liked'', JNum (Finite 7))]))))
           (example_page (Some ''7'') ''Like''))))
     = [like_request (Some ''7'')]
   \<and> url (like_request (Some ''7'')) = ''/api/like''
   \<and> btn_text (snd (processLike
           (example_net (Fulfilled (json_response 200 (JObj [(''likes'', JBool False)])))
              (Fulfilled (json_response 201 (JObj [(''liked'', JNum (Finite 7))]))))
           (example_page (Some ''7'') ''Like''))) = ''Liked''"
proof -
  let ?d = "JObj [(''likes'', JBool False)]"
  let ?net = "example_net (Fulfilled (json_response 200 ?d))
      (Fulfilled (json_response 201 (JObj [(''liked'', JNum (Finite 7))])))"
  let ?p = "example_page (Some ''7'') ''Like''"
  have h1: "?net (likes_request (cafe_id_attr ?p)) = Fulfilled (json_response 200 ?d)"
    by (simp add: example_defs)
  have h2: "json (json_response 200 ?d) = Fulfilled ?d"
    by (simp add: example_defs)
  have h3: "get_likes ?d = Inr (JBool False)"
    by simp
  have a: "cafe_id_attr ?p = Some ''7''"
    by (simp add: example_defs)
  show ?thesis
    using h1 h2 h3 processLike_not_liked [of ?net ?p "json_response 200 ?d" ?d] by (simp add: a)
qed

text \<open>
  Claim C3. In \<open>likeCafe\<close> and in \<open>unlikeCafe\<close> the write of the button's text
  is the first effect, the POST is issued next and only then does the function wait for
  the response. When the response never arrives, the function stays suspended at that
  \<open>await\<close> on a page whose button already shows the new text.
\<close>

theorem label_written_before_await:
  "take 3 (emitted p (snd (likeCafe net cafeId p)))
     = [SetText ''#like-btn'' ''Liked'', Fetch (like_request cafeId), AwaitResponse]
   \<and> take 3 (emitted p (snd (unlikeCafe net cafeId p)))
     = [SetText ''#like-btn'' ''Like'', Fetch (unlike_request cafeId), AwaitResponse]
   \<and> (net (like_request cafeId) = Pending \<longrightarrow>
        likeCafe net cafeId p =
          (Suspended,
           p\<lparr>btn_text := ''Liked'',
             events := events p @
               [SetText ''#like-btn'' ''Liked'', Fetch (like_request cafeId), AwaitResponse]\<rparr>))
   \<and> (net (unlike_request cafeId) = Pending \<longrightarrow>
        unlikeCafe net cafeId p =
          (Suspended,
           p\<lparr>btn_text := ''Like'',
             events := events p @
               [SetText ''#like-btn'' ''Like'', Fetch (unlike_request cafeId), AwaitResponse]\<rparr>))"
proof -
  have a: "take 3 (emitted p (snd (likeCafe net cafeId p)))
     = [SetText ''#like-btn'' ''Liked'', Fetch (like_request cafeId), AwaitResponse]"
    by (simp add: run_defs split: promise.split)
  have b: "take 3 (emitted p (snd (unlikeCafe net cafeId p)))
     = [SetText ''#like-btn'' ''Like'', Fetch (unlike_request cafeId), AwaitResponse]"
    by (simp add: run_defs split: promise.split)
  have c: "likeCafe net cafeId p =
          (Suspended,
           p\<lparr>btn_text := ''Liked'',
             events := events p @
               [SetText ''#like-btn'' ''Liked'', Fetch (like_request cafeId), AwaitResponse]\<rparr>)"
    if "net (like_request cafeId) = Pending"
    using that by (simp add: run_defs)
  have d: "unlikeCafe net cafeId p =
          (Suspended,
           p\<lparr>btn_text := ''Like'',
             events := events p @
               [SetText ''#like-btn'' ''Like'', Fetch (unlike_request cafeId), AwaitResponse]\<rparr>)"
    if "net (unlike_request cafeId) = Pending"
    using that by (simp add: run_defs)
  from a b c d show ?thesis by blast
qed

theorem label_written_before_await_witness:
  "example_net Pending Pending (like_request (Some ''7'')) = Pending
   \<and> example_net Pending Pending (unlike_request (Some ''7'')) = Pending
   \<and> fst (likeCafe (example_net Pending Pending) (Some ''7'') (example_page (Some ''7'') ''Like''))
       = Suspended
   \<and> btn_text (snd (likeCafe (example_net Pending Pending) (Some ''7'')
        (example_page (Some ''7'') ''Like''))) = ''Liked''
   \<and> fst (unlikeCafe (example_net Pending Pending) (Some ''7'') (example_page (Some ''7'') ''Liked''))
       = Suspended
   \<and> btn_text (snd (unlikeCafe (example_net Pending Pending) (Some ''7'')
        (example_page (Some ''7'') ''Liked''))) = ''Like''"
proof -
  let ?net = "example_net Pending Pending"
  have h1: "?net (like_request (Some ''7'')) = Pending"
    and h2: "?net (unlike_request (Some ''7'')) = Pending"
    by (simp_all add: example_defs)
  show ?thesis
    using h1 h2
      label_written_before_await [of "example_page (Some ''7'') ''Like''" ?net "Some ''7''"]
      label_written_before_await [of "example_page (Some ''7'') ''Liked''" ?net "Some ''7''"]
    by simp
qed

text \<open>
  Claim C4. When the state query fails, because \<open>fetch\<close> rejects or because
  \<open>resp.json()\<close> rejects, the handler ends with that error, has issued no mutation
  request, and the button's text is what it was before.
\<close>

theorem processLike_query_fails:
  assumes "net (likes_request (cafe_id_attr p)) = Rejected e
     \<or> (\<exists>resp. net (likes_request (cafe_id_attr p)) = Fulfilled resp \<and> json resp = Rejected e)"
  shows "fst (processLike net p) = Threw e
       \<and> mutations (emitted p (snd (processLike net p))) = []
       \<and> btn_text (snd (processLike net p)) = btn_text p"
  using assms
  by (auto simp: processLike_unfold after_query_def awaiting_query_def emitted_def
      mutations_def is_post_def)

theorem processLike_query_fails_witness:
  "example_net (Rejected TypeError) Pending
       (likes_request (cafe_id_attr (example_page (Some ''7'') ''Like''))) = Rejected TypeError
   \<and> fst (processLike (example_net (Rejected TypeError) Pending) (example_page (Some ''7'') ''Like''))
       = Threw TypeError
   \<and> mutations (emitted (example_page (Some ''7'') ''Like'')
        (snd (processLike (example_net (Rejected TypeError) Pending)
           (example_page (Some ''7'') ''Like'')))) = []
   \<and> btn_text (snd (processLike (example_net (Rejected TypeError) Pending)
           (example_page (Some ''7'') ''Like''))) = ''Like''
   \<and> json \<lparr>status = 200, json = Rejected SyntaxError\<rparr> = Rejected SyntaxError
   \<and> fst (processLike
          (example_net (Fulfilled \<lparr>status = 200, json = Rejected SyntaxError\<rparr>) Pending)
          (example_page (Some ''7'') ''Liked'')) = Threw SyntaxError
   \<and> mutations (emitted (example_page (Some ''7'') ''Liked'')
        (snd (processLike
          (example_net (Fulfilled \<lparr>status = 200, json = Rejected SyntaxError\<rparr>) Pending)
          (example_page (Some ''7'') ''Liked'')))) = []
   \<and> btn_text (snd (processLike
          (example_net (Fulfilled \<lparr>status = 200, json = Rejected SyntaxError\<rparr>) Pending)
          (example_page (Some ''7'') ''Liked''))) = ''Liked''"
proof -
  let ?n1 = "example_net (Rejected TypeError) Pending"
  let ?r = "\<lparr>status = 200, json = Rejected SyntaxError\<rparr>"
  let ?n2 = "example_net (Fulfilled ?r) Pending"
  let ?p1 = "example_page (Some ''7'') ''Like''"
  let ?p2 = "example_page (Some ''7'') ''Liked''"
  have h1: "?n1 (likes_request (cafe_id_attr ?p1)) = Rejected TypeError"
    by (simp add: example_defs)
  have h2: "?n2 (likes_request (cafe_id_attr ?p2)) = Fulfilled ?r \<and> json ?r = Rejected SyntaxError"
    by (simp add: example_defs)
  have b: "btn_text ?p1 = ''Like''" "btn_text ?p2 = ''Liked''"
    by (simp_all add: example_defs)
  show ?thesis
    using h1 h2 processLike_query_fails [of ?n1 ?p1 TypeError]
      processLike_query_fails [of ?n2 ?p2 SyntaxError]
    by (simp add: b)
qed

text \<open>
  Claim C5 says that a parsed body without the \<open>likes\<close> field makes the handler
  abort with no mutation request and no change of the page. It does not: on the body
  \<open>{"liked": true}\<close> the handler returns normally, has posted to \<open>/api/like\<close>
  and has changed the button's text from \<open>Like\<close> to \<open>Liked\<close>.
\<close>

theorem missing_likes_field_counterexample:
  "get_likes (JObj [(''liked'', JBool True)]) = Inr JUndefined
   \<and> fst (processLike
         (example_net (Fulfilled (json_response 200 (JObj [(''liked'', JBool True)])))
            (Fulfilled (json_response 200 (JObj []))))
         (example_page (Some ''7'') ''Like'')) = Returned
   \<and> mutations (emitted (example_page (Some ''7'') ''Like'')
        (snd (processLike
         (example_net (Fulfilled (json_response 200 (JObj [(''liked'', JBool True)])))
            (Fulfilled (json_response 200 (JObj []))))
         (example_page (Some ''7'') ''Like'')))) = [like_request (Some ''7'')]
   \<and> btn_text (example_page (Some ''7'') ''Like'') = ''Like''
   \<and> btn_text (snd (processLike
         (example_net (Fulfilled (json_response 200 (JObj [(''liked'', JBool True)])))
            (Fulfilled (json_response 200 (JObj []))))
         (example_page (Some ''7'') ''Like''))) = ''Liked''"
  by (simp add: run_defs example_defs)

text \<open>
  Claim C5, amended. A parsed body on which the read of \<open>likes\<close> gives
  \<open>undefined\<close> (every object without that member, and every boolean, number, string
  and array) is not an error: the handler goes on as \<open>likeCafe\<close>, issues the one POST to
  \<open>/api/like\<close> and sets the button's text to \<open>Liked\<close>. Only the body
  \<open>null\<close> makes the read throw: the handler ends with a TypeError, no mutation request
  and the button's text unchanged.
\<close>

theorem processLike_missing_likes_field:
  assumes "net (likes_request (cafe_id_attr p)) = Fulfilled resp"
    and "json resp = Fulfilled likedData"
  shows "(get_likes likedData = Inr JUndefined \<longrightarrow>
            processLike net p = likeCafe net (cafe_id_attr p) (after_query p)
          \<and> mutations (emitted p (snd (processLike net p))) = [like_request (cafe_id_attr p)]
          \<and> btn_text (snd (processLike net p)) = ''Liked'')
       \<and> (likedData = JNull \<longrightarrow>
            processLike net p = (Threw TypeError, after_query p)
          \<and> mutations (emitted p (snd (processLike net p))) = []
          \<and> btn_text (snd (processLike net p)) = btn_text p)"
proof -
  note processLike_answered [of net p resp likedData]
  then show ?thesis
    using assms
    by (simp add: likeCafe_after_query likeCafe_label mutations_before_answer
        btn_text_after_query)
qed

theorem processLike_missing_likes_field_witness:
  "get_likes (JObj [(''liked'', JBool True)]) = Inr JUndefined
   \<and> mutations (emitted (example_page (Some ''7'') ''Like'')
        (snd (processLike
         (example_net (Fulfilled (json_response 200 (JObj [(''liked'', JBool True)]))) Pending)
         (example_page (Some ''7'') ''Like'')))) = [like_request (Some ''7'')]
   \<and> btn_text (snd (processLike
         (example_net (Fulfilled (json_response 200 (JObj [(''liked'', JBool True)]))) Pending)
         (example_page (Some ''7'') ''Like''))) = ''Liked''
   \<and> fst (processLike (example_net (Fulfilled (json_response 200 JNull)) Pending)
         (example_page (Some ''7'') ''Like'')) = Threw TypeError
   \<and> mutations (emitted (example_page (Some ''7'') ''Like'')
        (snd (processLike (example_net (Fulfilled (json_response 200 JNull)) Pending)
         (example_page (Some ''7'') ''Like'')))) = []
   \<and> btn_text (snd (processLike (example_net (Fulfilled (json_response 200 JNull)) Pending)
         (example_page (Some ''7'') ''Like''))) = ''Like''"
proof -
  let ?d = "JObj [(''liked'', JBool True)]"
  let ?n1 = "example_net (Fulfilled (json_response 200 ?d)) Pending"
  let ?n2 = "example_net (Fulfilled (json_response 200 JNull)) Pending"
  let ?p = "example_page (Some ''7'') ''Like''"
  have h1: "?n1 (likes_request (cafe_id_attr ?p)) = Fulfilled (json_response 200 ?d)"
    and h2: "json (json_response 200 ?d) = Fulfilled ?d"
    and h3: "?n2 (likes_request (cafe_id_attr ?p)) = Fulfilled (json_response 200 JNull)"
    and h4: "json (json_response 200 JNull) = Fulfilled JNull"
    by (simp_all add: example_defs)
  have a: "cafe_id_attr ?p = Some ''7''" "btn_text ?p = ''Like''"
    by (simp_all add: example_defs)
  show ?thesis
    using h1 h2 h3 h4
      processLike_missing_likes_field [of ?n1 ?p "json_response 200 ?d" ?d]
      processLike_missing_likes_field [of ?n2 ?p "json_response 200 JNull" JNull]
    by (simp add: a likeCafe_after_query likeCafe_label mutations_before_answer
        btn_text_after_query)
qed

text \<open>
  Claim C6 says that every mutation request's body is an object with the single key
  \<open>cafe_id\<close>. On a form without the \<open>cafe-id\<close> attribute the value read is
  \<open>undefined\<close>, and \<open>JSON.stringify\<close> leaves the key out: the body of the POST
  is \<open>{}\<close>, an object with no member.
\<close>

theorem mutation_body_counterexample:
  "cafe_id_attr (example_page None ''Liked'') = None
   \<and> map body (mutations (emitted (example_page None ''Liked'')
        (snd (processLike
          (example_net (Fulfilled (json_response 200 (JObj [(''likes'', JBool True)])))
             (Fulfilled (json_response 200 (JObj []))))
          (example_page None ''Liked''))))) = [Some ''{}'']
   \<and> map body_members (mutations (emitted (example_page None ''Liked'')
        (snd (processLike
          (example_net (Fulfilled (json_response 200 (JObj [(''likes'', JBool True)])))
             (Fulfilled (json_response 200 (JObj []))))
          (example_page None ''Liked''))))) = [Some []]"
  by (simp add: run_defs example_defs body_members_mutation) (simp add: unlike_request_def)

text \<open>
  Claim C6, amended. Every request that \<open>likeCafe\<close> or \<open>unlikeCafe\<close> sends
  for a defined \<open>cafeId\<close> has a body that reads back as the JSON object with the
  single member \<open>cafe_id\<close> whose value is that string, and has the header list
  \<open>Content-Type: application/json\<close>; and when the form has the \<open>cafe-id\<close>
  attribute, every mutation request of \<open>processLike\<close> is such a request for the
  attribute's value.
\<close>

theorem mutation_body_is_json:
  "(\<forall>r \<in> set (requests (emitted p (snd (likeCafe net (Some cid) p)))).
      body_members r = Some [(''cafe_id'', cid)]
      \<and> headers r = [(''Content-Type'', ''application/json'')])
   \<and> (\<forall>r \<in> set (requests (emitted p (snd (unlikeCafe net (Some cid) p)))).
      body_members r = Some [(''cafe_id'', cid)]
      \<and> headers r = [(''Content-Type'', ''application/json'')])
   \<and> (cafe_id_attr p = Some cid \<longrightarrow>
        (\<forall>r \<in> set (mutations (emitted p (snd (processLike net p)))).
           body_members r = Some [(''cafe_id'', cid)]
           \<and> headers r = [(''Content-Type'', ''application/json'')]))"
proof -
  have h: "headers (like_request c) = [(''Content-Type'', ''application/json'')]"
    "headers (unlike_request c) = [(''Content-Type'', ''application/json'')]" for c
    by (simp_all add: like_request_def unlike_request_def)
  have "body_members r = Some [(''cafe_id'', cid)]
      \<and> headers r = [(''Content-Type'', ''application/json'')]"
    if "cafe_id_attr p = Some cid" "r \<in> set (mutations (emitted p (snd (processLike net p))))" for r
  proof -
    from that(2) processLike_mutations_subset [of p net]
    have "r = like_request (cafe_id_attr p) \<or> r = unlike_request (cafe_id_attr p)"
      by blast
    with that(1) show ?thesis
      by (auto simp: body_members_mutation h)
  qed
  then show ?thesis
    by (simp add: likeCafe_requests unlikeCafe_requests body_members_mutation h)
qed

theorem mutation_body_is_json_witness:
  "like_request (Some ''7'') \<in> set (requests (emitted (example_page (Some ''7'') ''Like'')
        (snd (likeCafe (example_net Pending Pending) (Some ''7'') (example_page (Some ''7'') ''Like'')))))
   \<and> body_members (like_request (Some ''7'')) = Some [(''cafe_id'', ''7'')]
   \<and> headers (like_request (Some ''7'')) = [(''Content-Type'', ''application/json'')]
   \<and> unlike_request (Some ''7'') \<in> set (requests (emitted (example_page (Some ''7'') ''Like'')
        (snd (unlikeCafe (example_net Pending Pending) (Some ''7'') (example_page (Some ''7'') ''Like'')))))
   \<and> body_members (unlike_request (Some ''7'')) = Some [(''cafe_id'', ''7'')]
   \<and> cafe_id_attr (example_page (Some ''7'') ''Like'') = Some ''7''
   \<and> like_request (Some ''7'') \<in> set (mutations (emitted (example_page (Some ''7'') ''Like'')
        (snd (processLike
          (example_net (Fulfilled (json_response 200 (JObj [(''likes'', JBool False)]))) Pending)
          (example_page (Some ''7'') ''Like'')))))"
proof -
  let ?p = "example_page (Some ''7'') ''Like''"
  let ?net = "example_net Pending Pending"
  let ?answering =
    "example_net (Fulfilled (json_response 200 (JObj [(''likes'', JBool False)]))) Pending"
  have m3: "like_request (Some ''7'') \<in> set (mutations (emitted ?p (snd (processLike ?answering ?p))))"
    by (simp add: run_defs example_defs)
  have m1: "like_request (Some ''7'') \<in> set (requests (emitted ?p (snd (likeCafe ?net (Some ''7'') ?p))))"
    by (simp add: likeCafe_requests)
  have m2: "unlike_request (Some ''7'') \<in> set (requests (emitted ?p (snd (unlikeCafe ?net (Some ''7'') ?p))))"
    by (simp add: unlikeCafe_requests)
  have a: "cafe_id_attr ?p = Some ''7''"
    by (simp add: example_defs)
  from mutation_body_is_json [of ?p ?net "''7''"] mutation_body_is_json [of ?p ?answering "''7''"]
    m1 m2 m3 a
  show ?thesis
    by blast
qed

text \<open>
  Claim C7. In every invocation of \<open>processLike\<close>, whatever the network does, the
  first effect is \<open>preventDefault\<close>, before the read of the attribute and before the
  first request, and the event's default action is prevented on the page the invocation
  leaves.
\<close>

theorem processLike_prevents_default_first:
  "default_prevented (snd (processLike net p))
   \<and> take 1 (emitted p (snd (processLike net p))) = [PreventDefault]
   \<and> take 3 (emitted p (snd (processLike net p))) =
       [PreventDefault, ReadAttr ''#like-form'' ''cafe-id'', Fetch (likes_request (cafe_id_attr p))]"
proof -
  have a: "default_prevented (awaiting_query p)" "default_prevented (after_query p)"
    by (simp_all add: awaiting_query_def after_query_def)
  have "default_prevented (snd (processLike net p))"
    by (simp add: processLike_unfold a likeCafe_default_prevented unlikeCafe_default_prevented
        split: promise.split sum.split)
  moreover have "take 1 (emitted p (snd (processLike net p))) =
      take 1 (take 3 (emitted p (snd (processLike net p))))"
    by simp
  then have "take 1 (emitted p (snd (processLike net p))) = [PreventDefault]"
    by (simp only: processLike_prefix) simp
  ultimately show ?thesis
    using processLike_prefix [of p net] by blast
qed

text \<open>
  Claim C8. The button's text that \<open>likeCafe\<close> and \<open>unlikeCafe\<close> leave does not
  depend on the network: two runs from the same page with the same \<open>cafeId\<close> end with
  the same text, however their responses differ (status, JSON body, rejection or no answer
  at all).
\<close>

theorem label_independent_of_response:
  "btn_text (snd (likeCafe net1 cafeId p)) = btn_text (snd (likeCafe net2 cafeId p))
   \<and> btn_text (snd (unlikeCafe net1 cafeId p)) = btn_text (snd (unlikeCafe net2 cafeId p))"
  by (simp add: likeCafe_label unlikeCafe_label)

text \<open>
  Claim C9 says that after every successfully parsed response exactly one of
  \<open>likeCafe\<close> and \<open>unlikeCafe\<close> is invoked. The body \<open>null\<close> parses, but the
  read \<open>likedData.likes\<close> throws on it: the handler ends with a TypeError, the state
  query is its only request and the button's text is unchanged, so neither was invoked.
\<close>

theorem null_body_counterexample:
  "json (json_response 200 JNull) = Fulfilled JNull
   \<and> fst (processLike (example_net (Fulfilled (json_response 200 JNull))
          (Fulfilled (json_response 200 (JObj []))))
        (example_page (Some ''7'') ''Like'')) = Threw TypeError
   \<and> requests (emitted (example_page (Some ''7'') ''Like'')
        (snd (processLike (example_net (Fulfilled (json_response 200 JNull))
          (Fulfilled (json_response 200 (JObj []))))
        (example_page (Some ''7'') ''Like'')))) = [likes_request (Some ''7'')]
   \<and> btn_text (snd (processLike (example_net (Fulfilled (json_response 200 JNull))
          (Fulfilled (json_response 200 (JObj []))))
        (example_page (Some ''7'') ''Like''))) = ''Like''"
  by (simp add: run_defs example_defs)

text \<open>
  Claim C9, amended. For every parsed body on which the read of \<open>likes\<close> succeeds
  (every body but \<open>null\<close>), the handler goes on as exactly one of the two helpers:
  as \<open>unlikeCafe\<close> when the value read is truthy, as \<open>likeCafe\<close> otherwise,
  boolean or not. Its one mutation request and the button's text are that helper's. In
  particular an object without a \<open>likes\<close> member takes the like path and posts to
  \<open>/api/like\<close>.
\<close>

theorem processLike_branches_on_truthiness:
  assumes "net (likes_request (cafe_id_attr p)) = Fulfilled resp"
    and "json resp = Fulfilled likedData"
    and "get_likes likedData = Inr liked"
  shows "processLike net p =
        (if to_boolean liked then unlikeCafe net (cafe_id_attr p) (after_query p)
         else likeCafe net (cafe_id_attr p) (after_query p))
       \<and> mutations (emitted p (snd (processLike net p))) =
        [if to_boolean liked then unlike_request (cafe_id_attr p)
         else like_request (cafe_id_attr p)]
       \<and> btn_text (snd (processLike net p)) = (if to_boolean liked then ''Like'' else ''Liked'')
       \<and> (\<forall>kvs. likedData = JObj kvs \<and> map_of kvs ''likes'' = None \<longrightarrow>
             mutations (emitted p (snd (processLike net p))) = [like_request (cafe_id_attr p)])"
proof -
  have run: "processLike net p =
        (if to_boolean liked then unlikeCafe net (cafe_id_attr p) (after_query p)
         else likeCafe net (cafe_id_attr p) (after_query p))"
    using assms by (simp add: processLike_answered)
  have m: "mutations (emitted p (snd (processLike net p))) =
        [if to_boolean liked then unlike_request (cafe_id_attr p)
         else like_request (cafe_id_attr p)]"
    by (simp add: run likeCafe_after_query unlikeCafe_after_query)
  have b: "btn_text (snd (processLike net p)) = (if to_boolean liked then ''Like'' else ''Liked'')"
    by (simp add: run likeCafe_label unlikeCafe_label)
  have "mutations (emitted p (snd (processLike net p))) = [like_request (cafe_id_attr p)]"
    if "likedData = JObj kvs" "map_of kvs ''likes'' = None" for kvs
  proof -
    from that assms(3) have "liked = JUndefined" by simp
    with m show ?thesis by simp
  qed
  with run m b show ?thesis by blast
qed

theorem processLike_branches_on_truthiness_witness:
  "get_likes (JObj [(''likes'', JStr ''yes'')]) = Inr (JStr ''yes'')
   \<and> to_boolean (JStr ''yes'')
   \<and> mutations (emitted (example_page (Some ''7'') ''Liked'')
        (snd (processLike
          (example_net (Fulfilled (json_response 200 (JObj [(''likes'', JStr ''yes'')]))) Pending)
          (example_page (Some ''7'') ''Liked'')))) = [unlike_request (Some ''7'')]
   \<and> get_likes (JObj [(''count'', JNum (Finite 3))]) = Inr JUndefined
   \<and> \<not> to_boolean JUndefined
   \<and> mutations (emitted (example_page (Some ''7'') ''Like'')
        (snd (processLike
          (example_net (Fulfilled (json_response 200 (JObj [(''count'', JNum (Finite 3))]))) Pending)
          (example_page (Some ''7'') ''Like'')))) = [like_request (Some ''7'')]
   \<and> btn_text (snd (processLike
          (example_net (Fulfilled (json_response 200 (JObj [(''count'', JNum (Finite 3))]))) Pending)
          (example_page (Some ''7'') ''Like''))) = ''Liked''"
proof -
  let ?d1 = "JObj [(''likes'', JStr ''yes'')]"
  let ?d2 = "JObj [(''count'', JNum (Finite 3))]"
  let ?n1 = "example_net (Fulfilled (json_response 200 ?d1)) Pending"
  let ?n2 = "example_net (Fulfilled (json_response 200 ?d2)) Pending"
  let ?p1 = "example_page (Some ''7'') ''Liked''"
  let ?p2 = "example_page (Some ''7'') ''Like''"
  have h1: "?n1 (likes_request (cafe_id_attr ?p1)) = Fulfilled (json_response 200 ?d1)"
    and h2: "json (json_response 200 ?d1) = Fulfilled ?d1"
    and h3: "get_likes ?d1 = Inr (JStr ''yes'')"
    and k1: "?n2 (likes_request (cafe_id_attr ?p2)) = Fulfilled (json_response 200 ?d2)"
    and k2: "json (json_response 200 ?d2) = Fulfilled ?d2"
    and k3: "get_likes ?d2 = Inr JUndefined"
    by (simp_all add: example_defs)
  have a: "cafe_id_attr ?p1 = Some ''7''" "cafe_id_attr ?p2 = Some ''7''"
    by (simp_all add: example_defs)
  have t: "to_boolean (JStr ''yes'')" "\<not> to_boolean JUndefined"
    by simp_all
  from processLike_branches_on_truthiness [of ?n1 ?p1 "json_response 200 ?d1" ?d1 "JStr ''yes''"]
    h1 h2 h3 t(1) a(1)
  have c1: "mutations (emitted ?p1 (snd (processLike ?n1 ?p1))) = [unlike_request (Some ''7'')]"
    by (simp add: unlikeCafe_after_query)
  from processLike_branches_on_truthiness [of ?n2 ?p2 "json_response 200 ?d2" ?d2 JUndefined]
    k1 k2 k3 t(2) a(2)
  have c2: "mutations (emitted ?p2 (snd (processLike ?n2 ?p2))) = [like_request (Some ''7'')]"
    and c3: "btn_text (snd (processLike ?n2 ?p2)) = ''Liked''"
    by (simp_all add: likeCafe_after_query likeCafe_label)
  from h3 k3 t c1 c2 c3 show ?thesis by blast
qed

text \<open>
  Claim C10 says that on a form without the \<open>cafe-id\<close> attribute the value
  interpolated into the query, the string \<open>undefined\<close>, is also passed on to the
  mutation's request body. The query does carry \<open>cafe_id=undefined\<close>, but the body of
  the POST is \<open>{}\<close>: it is not the body that a \<open>cafeId\<close> of
  \<open>"undefined"\<close> gives, and holds no \<open>cafe_id\<close> at all.
\<close>

theorem missing_attribute_counterexample:
  "cafe_id_attr (example_page None ''Like'') = None
   \<and> map url (requests (emitted (example_page None ''Like'')
        (snd (processLike
          (example_net (Fulfilled (json_response 200 (JObj [(''likes'', JBool False)]))) Pending)
          (example_page None ''Like'')))))
       = [''/api/likes?cafe_id=undefined'', ''/api/like'']
   \<and> map body (mutations (emitted (example_page None ''Like'')
        (snd (processLike
          (example_net (Fulfilled (json_response 200 (JObj [(''likes'', JBool False)]))) Pending)
          (example_page None ''Like''))))) = [Some ''{}'']
   \<and> map body (mutations (emitted (example_page None ''Like'')
        (snd (processLike
          (example_net (Fulfilled (json_response 200 (JObj [(''likes'', JBool False)]))) Pending)
          (example_page None ''Like'')))))
       \<noteq> [body (like_request (Some ''undefined''))]"
  by (simp add: run_defs example_defs)
    (simp add: like_request_def likes_request_def quote_json_string_def)

text \<open>
  Claim C10, amended. When the form lacks the \<open>cafe-id\<close> attribute the handler
  does not throw at the read: after \<open>preventDefault\<close> and the read it issues the GET
  to \<open>/api/likes?cafe_id=undefined\<close>, and every mutation request it then issues has
  the body \<open>{}\<close>, the empty object, since \<open>JSON.stringify\<close> leaves out a key
  whose value is \<open>undefined\<close>.
\<close>

theorem processLike_missing_attribute:
  assumes "cafe_id_attr p = None"
  shows "take 3 (emitted p (snd (processLike net p))) =
        [PreventDefault, ReadAttr ''#like-form'' ''cafe-id'',
         Fetch \<lparr>url = ''/api/likes?cafe_id=undefined'', req_method = GET, body = None,
                headers = []\<rparr>]
       \<and> (\<forall>r \<in> set (mutations (emitted p (snd (processLike net p)))).
             body r = Some ''{}'' \<and> body_members r = Some [])"
proof -
  have q: "likes_request None =
      \<lparr>url = ''/api/likes?cafe_id=undefined'', req_method = GET, body = None, headers = []\<rparr>"
    by (simp add: likes_request_def)
  have b: "body (like_request None) = Some ''{}''" "body (unlike_request None) = Some ''{}''"
    by (simp_all add: like_request_def unlike_request_def)
  have "body r = Some ''{}'' \<and> body_members r = Some []"
    if "r \<in> set (mutations (emitted p (snd (processLike net p))))" for r
  proof -
    from that processLike_mutations_subset [of p net] assms
    have "r = like_request None \<or> r = unlike_request None"
      by auto
    then show ?thesis
      by (auto simp: b body_members_mutation)
  qed
  moreover note processLike_prefix [of p net]
  ultimately show ?thesis
    using assms by (simp add: q)
qed

theorem processLike_missing_attribute_witness:
  "cafe_id_attr (example_page None ''Like'') = None
   \<and> like_request None \<in> set (mutations (emitted (example_page None ''Like'')
        (snd (processLike
          (example_net (Fulfilled (json_response 200 (JObj [(''likes'', JBool False)]))) Pending)
          (example_page None ''Like'')))))
   \<and> body (like_request None) = Some ''{}''
   \<and> body_members (like_request None) = Some []"
proof -
  let ?net = "example_net (Fulfilled (json_response 200 (JObj [(''likes'', JBool False)]))) Pending"
  let ?p = "example_page None ''Like''"
  have a: "cafe_id_attr ?p = None"
    by (simp add: example_defs)
  have m: "like_request None \<in> set (mutations (emitted ?p (snd (processLike ?net ?p))))"
    by (simp add: run_defs example_defs)
  from processLike_missing_attribute [OF a, of ?net] m a show ?thesis
    by blast
qed

end
